theory Spec2Isabelle
  imports Complex_Main "HOL-Library.Sublist" "HOL-Library.Log_Nat"
begin

section \<open>AquaSafe Pro: the water quality form, the classifier call and the detail table\<close>

text \<open>
  The program is one Streamlit script, \<^verbatim>\<open>app.py\<close>. This theory embeds the three
  parts of the script that compute something: the five slider controls of
  \<^verbatim>\<open>water_quality_form\<close> (lines 72-89), the call of the loaded pipeline with the
  confidence computed from its probabilities (lines 98-105), and the dictionary
  \<^verbatim>\<open>param_eval\<close> with the verdict panel and the three metrics (lines 108-221).

  Readings are Python floats. Every float a slider can return is a rational number, and
  every constant the script compares a reading with (4.5, 5.5, 6.5, 8.5, 9.5, 3, 5, 6, 20,
  30, 40, 1000, 1500) is a float exactly, so each comparison of the script is the
  comparison of the two real numbers: readings are modelled as \<^typ>\<open>real\<close>. The
  conductivity slider is called with integers and returns a Python int: it is an
  \<^typ>\<open>int\<close>. The one product of the script (line 105) is not exact in floats: it is
  modelled with the rounding of a float64 product.
\<close>

subsection \<open>Text outside ASCII\<close>

text \<open>
  A \<^typ>\<open>string\<close> is a list of bytes; the symbols of the script outside ASCII are
  written as their UTF-8 encoding. The script only builds and shows these strings, it never
  measures or slices them.
\<close>

definition check_mark :: string where
  \<comment> \<open>U+2705, white heavy check mark\<close>
  "check_mark = [CHR 0xE2, CHR 0x9C, CHR 0x85]"

definition warning_sign :: string where
  \<comment> \<open>U+26A0 warning sign, followed by U+FE0F (variation selector 16)\<close>
  "warning_sign = [CHR 0xE2, CHR 0x9A, CHR 0xA0, CHR 0xEF, CHR 0xB8, CHR 0x8F]"

definition cross_mark :: string where
  \<comment> \<open>U+274C, cross mark\<close>
  "cross_mark = [CHR 0xE2, CHR 0x9D, CHR 0x8C]"

definition degree_sign :: string where
  \<comment> \<open>U+00B0\<close>
  "degree_sign = [CHR 0xC2, CHR 0xB0]"

definition micro_sign :: string where
  \<comment> \<open>U+00B5\<close>
  "micro_sign = [CHR 0xC2, CHR 0xB5]"

definition greater_equal_sign :: string where
  \<comment> \<open>U+2265\<close>
  "greater_equal_sign = [CHR 0xE2, CHR 0x89, CHR 0xA5]"

subsection \<open>The sample\<close>

text \<open>
  The five values read from the sliders, in the order of the row of \<^verbatim>\<open>input_data\<close>
  (line 98).
\<close>

record WaterSample =
  ph :: real
  temperature :: real
  turbidity :: real
  dissolved_oxygen :: real
  conductivity :: int

subsection \<open>The detail table \<^verbatim>\<open>param_eval\<close>\<close>

text \<open>
  A number shown in the table: the script prints the pH as it is and the other four values
  through an f-string that appends the unit. The decimal text of a float is not modelled;
  a cell of the column \<^verbatim>\<open>Your Value\<close> is the number together with the text the
  f-string puts after it.
\<close>

datatype number = PyFloat real | PyInt int

record ParamEval =
  Parameter :: "string list"
  Your_Value :: "(number \<times> string) list"
  Safe_Range :: "string list"
  Status :: "string list"
  Health_Impact :: "string list"

definition param_eval :: "WaterSample \<Rightarrow> ParamEval" where
  "param_eval s =
    \<lparr>Parameter = [''pH'', ''Temperature'', ''Turbidity'', ''Dissolved Oxygen'', ''Conductivity''],
     Your_Value =
       [(PyFloat (ph s), ''''),
        (PyFloat (temperature s), degree_sign @ ''C''),
        (PyFloat (turbidity s), '' NTU''),
        (PyFloat (dissolved_oxygen s), '' mg/L''),
        (PyInt (conductivity s), '' '' @ micro_sign @ ''S/cm'')],
     Safe_Range =
       [''6.5-8.5'',
        ''< 30'' @ degree_sign @ ''C'',
        ''< 5 NTU'',
        greater_equal_sign @ '' 6 mg/L'',
        ''< 1000 '' @ micro_sign @ ''S/cm''],
     Status =
       [if 6.5 \<le> ph s \<and> ph s \<le> 8.5 then check_mark @ '' Optimal''
        else if ph s > 8.5 then warning_sign @ '' Alkaline''
        else if ph s \<ge> 4.5 then warning_sign @ '' Acidic''
        else cross_mark @ '' Dangerous'',

        if temperature s < 30 then check_mark @ '' Normal''
        else if temperature s < 40 then warning_sign @ '' Elevated''
        else cross_mark @ '' Extreme'',

        if turbidity s < 5 then check_mark @ '' Clear''
        else if turbidity s < 20 then warning_sign @ '' Cloudy''
        else cross_mark @ '' Very Turbid'',

        if dissolved_oxygen s \<ge> 6 then check_mark @ '' Healthy''
        else if dissolved_oxygen s \<ge> 3 then warning_sign @ '' Low''
        else cross_mark @ '' Hypoxic'',

        if conductivity s < 1000 then check_mark @ '' Normal''
        else if conductivity s < 1500 then warning_sign @ '' High''
        else cross_mark @ '' Very High''],
     Health_Impact =
       [if 6.5 \<le> ph s \<and> ph s \<le> 8.5 then ''Ideal for drinking''
        else if (8.5 < ph s \<and> ph s \<le> 9.5) \<or> (5.5 \<le> ph s \<and> ph s < 6.5)
          then ''May cause irritation''
        else ''Harmful to health'',

        if temperature s < 30 then ''No direct impact''
        else if temperature s < 40 then ''Affects taste''
        else ''Risk of scalding'',

        if turbidity s < 5 then ''Clear and safe''
        else if turbidity s < 20 then ''May harbor pathogens''
        else ''High pathogen risk'',

        if dissolved_oxygen s \<ge> 6 then ''Supports aquatic life''
        else if dissolved_oxygen s \<ge> 3 then ''Stressful for organisms''
        else ''Dangerously low oxygen'',

        if conductivity s < 1000 then ''Normal mineral content''
        else if conductivity s < 1500 then ''Elevated minerals''
        else ''Very high contamination risk'']\<rparr>"

subsection \<open>The tier of a status\<close>

text \<open>
  The script has no type of tiers: a status is a string that starts with one of three
  marks. The tier of a status is read off its mark: the check mark is the optimal tier,
  the warning sign a caution tier, the cross the dangerous tier.
\<close>

datatype tier = Optimal | Caution | Dangerous

definition status_tier :: "string \<Rightarrow> tier option" where
  "status_tier st =
    (if prefix check_mark st then Some Optimal
     else if prefix warning_sign st then Some Caution
     else if prefix cross_mark st then Some Dangerous
     else None)"

subsection \<open>The input form \<^verbatim>\<open>water_quality_form\<close>\<close>

text \<open>
  \<^verbatim>\<open>st.slider(label, min_value, max_value, value, step)\<close> is a control of the
  Streamlit library: it returns the number the user has set, which lies between
  \<^verbatim>\<open>min_value\<close> and \<^verbatim>\<open>max_value\<close> (both can be set) and on the grid that
  starts at \<^verbatim>\<open>min_value\<close> and advances by \<^verbatim>\<open>step\<close>. The library is not part of
  the repository; what is embedded of it is this contract, and the arguments are those of
  the five calls of the script. The field \<open>initial\<close> is the argument the library calls
  \<^verbatim>\<open>value\<close>. Grid points are the decimal numbers the control shows.
\<close>

record 'a slider =
  min_value :: 'a
  max_value :: 'a
  initial :: 'a
  step :: 'a

definition float_slider_admits :: "real slider \<Rightarrow> real \<Rightarrow> bool" where
  "float_slider_admits c v =
    (min_value c \<le> v \<and> v \<le> max_value c \<and>
     of_int \<lfloor>(v - min_value c) / step c\<rfloor> = (v - min_value c) / step c)"

definition int_slider_admits :: "int slider \<Rightarrow> int \<Rightarrow> bool" where
  "int_slider_admits c v =
    (min_value c \<le> v \<and> v \<le> max_value c \<and> (v - min_value c) mod step c = 0)"

definition ph_slider :: "real slider" where
  \<comment> \<open>line 72, help: "Measure of how acidic/basic water is (0-14 scale)"\<close>
  "ph_slider = \<lparr>min_value = 0.0, max_value = 14.0, initial = 7.0, step = 0.1\<rparr>"

definition temperature_slider :: "real slider" where
  \<comment> \<open>line 74, help: "Water temperature measurement (0-50 C range)"\<close>
  "temperature_slider = \<lparr>min_value = 0.0, max_value = 50.0, initial = 22.0, step = 0.5\<rparr>"

definition turbidity_slider :: "real slider" where
  \<comment> \<open>line 84, help: "Measure of water clarity (0-100 NTU range)"\<close>
  "turbidity_slider = \<lparr>min_value = 0.0, max_value = 3.0, initial = 0.01, step = 0.01\<rparr>"

definition dissolved_oxygen_slider :: "real slider" where
  \<comment> \<open>line 86, help: "Oxygen available for aquatic organisms (0-20 mg/L range)"\<close>
  "dissolved_oxygen_slider = \<lparr>min_value = 0.0, max_value = 200.0, initial = 8.0, step = 0.1\<rparr>"

definition conductivity_slider :: "int slider" where
  \<comment> \<open>line 88, help: "Measure of water's ability to conduct electricity (0-2000 uS/cm range)"\<close>
  "conductivity_slider = \<lparr>min_value = 0, max_value = 20000, initial = 350, step = 10\<rparr>"

text \<open>The samples the form can hand over when it is submitted.\<close>

definition water_quality_form :: "WaterSample \<Rightarrow> bool" where
  "water_quality_form s =
    (float_slider_admits ph_slider (ph s) \<and>
     float_slider_admits temperature_slider (temperature s) \<and>
     float_slider_admits turbidity_slider (turbidity s) \<and>
     float_slider_admits dissolved_oxygen_slider (dissolved_oxygen s) \<and>
     int_slider_admits conductivity_slider (conductivity s))"

subsection \<open>The table \<^verbatim>\<open>ranges\<close> of the second tab\<close>

text \<open>
  Lines 275-281: the measurement range the script itself documents for each parameter, in
  the order pH, temperature, turbidity, dissolved oxygen, conductivity. \<open>None\<close> is
  Python's \<^verbatim>\<open>None\<close>.
\<close>

definition ranges_Min :: "real list" where
  "ranges_Min = [0, 0, 0, 0, 0]"

definition ranges_Max :: "real list" where
  "ranges_Max = [14, 50, 100, 20, 2000]"

definition ranges_Safe_Min :: "real option list" where
  "ranges_Safe_Min = [Some 6.5, None, None, Some 6, None]"

definition ranges_Safe_Max :: "real option list" where
  "ranges_Safe_Max = [Some 8.5, Some 30, Some 5, None, Some 1000]"

definition input_data :: "WaterSample \<Rightarrow> real list" where
  \<comment> \<open>the one row of the data frame of line 98\<close>
  "input_data s =
    [ph s, temperature s, turbidity s, dissolved_oxygen s, of_int (conductivity s)]"

text \<open>A sample lies in the documented ranges when each value of its row is between the
  \<^verbatim>\<open>Min\<close> and the \<^verbatim>\<open>Max\<close> of its parameter.\<close>

definition in_ranges :: "WaterSample \<Rightarrow> bool" where
  "in_ranges s =
    list_all2 (\<lambda>v (lo, hi). lo \<le> v \<and> v \<le> hi) (input_data s) (zip ranges_Min ranges_Max)"

subsection \<open>Float arithmetic\<close>

text \<open>
  The script does arithmetic once: line 105 multiplies the greatest probability, a
  float64 of NumPy, by 100. A float64 product is the exact product rounded to the nearest
  float64, ties to the even significand (IEEE 754 binary64: 53 significant bits, normal
  exponents from -1022 to 1023, below them the subnormal numbers on the grid of
  \<open>2 powi (- 1074)\<close>, beyond the largest number an infinity). A finite float is modelled
  as the real number it stands for.
\<close>

datatype float64 = Finite real | PosInf | NegInf

text \<open>The nearest integer, a tie going to the even one.\<close>

definition round_half_even :: "real \<Rightarrow> int" where
  "round_half_even y =
    (let f = \<lfloor>y\<rfloor>; d = y - of_int f
     in if d < 1/2 then f else if 1/2 < d then f + 1 else if even f then f else f + 1)"

text \<open>The exponent of the power of two at or below a positive number, computed on the
  integer part (lemma \<open>floor_log2_log\<close> below: it is the floor of the binary logarithm).\<close>

definition floor_log2 :: "real \<Rightarrow> int" where
  "floor_log2 x = (if 1 \<le> x then bitlen \<lfloor>x\<rfloor> - 1 else - bitlen (\<lceil>1 / x\<rceil> - 1))"

definition round64 :: "real \<Rightarrow> float64" where
  "round64 x =
    (if x = 0 then Finite 0
     else let u = 2 powi (max (- 1022) (floor_log2 \<bar>x\<bar>) - 52);
              r = of_int (round_half_even (x / u)) * u
          in if 2 powi 1024 \<le> \<bar>r\<bar> then (if 0 < x then PosInf else NegInf) else Finite r)"

definition float_mul :: "real \<Rightarrow> real \<Rightarrow> float64" where
  "float_mul a b = round64 (a * b)"

subsection \<open>The classifier call\<close>

text \<open>
  The pipeline is an object unpickled from a file; the script uses two of its methods, on
  a data frame of one row, and takes the entry for that row (\<^verbatim>\<open>[0]\<close>). The two
  methods are parameters here: the label of a row and the probabilities of the classes for
  a row, which are float64 numbers.
\<close>

record pipeline =
  predict :: "real list \<Rightarrow> int"
  predict_proba :: "real list \<Rightarrow> real list"

text \<open>\<^verbatim>\<open>ValueError\<close> is what Python's \<^verbatim>\<open>max\<close> raises; the other two stand for
  what \<^verbatim>\<open>joblib.load\<close> raises on a missing file and on one it cannot unpickle.\<close>

datatype py_error = ValueError | FileNotFoundError | UnpicklingError

text \<open>Python's \<^verbatim>\<open>max\<close> of a sequence: it raises \<^verbatim>\<open>ValueError\<close> on an empty one,
  otherwise it keeps the first item and replaces it by each later item that is greater.\<close>

fun max_loop :: "real \<Rightarrow> real list \<Rightarrow> real" where
  "max_loop m [] = m"
| "max_loop m (x # xs) = max_loop (if x > m then x else m) xs"

definition py_max :: "real list \<Rightarrow> py_error + real" where
  "py_max xs = (case xs of [] \<Rightarrow> Inl ValueError | x # rest \<Rightarrow> Inr (max_loop x rest))"

definition classify :: "pipeline \<Rightarrow> WaterSample \<Rightarrow> py_error + (int \<times> float64)" where
  \<comment> \<open>lines 103-105: the pair (prediction, confidence)\<close>
  "classify p s =
    (let prediction = predict p (input_data s);
         prediction_proba = predict_proba p (input_data s)
     in case py_max prediction_proba of
          Inl e \<Rightarrow> Inl e
        | Inr m \<Rightarrow> Inr (prediction, float_mul m 100))"

subsection \<open>The results\<close>

text \<open>
  What the script shows after a submission: the verdict panel (lines 108-127; the
  confidence is kept as a number, its text with one decimal is not modelled), the detail
  table (lines 134-202) and the three metrics (lines 208-221). The class label is a number
  and the script tests its truth value.
\<close>

record metric =
  label :: string
  shown :: "number \<times> string"
  delta :: string
  delta_color :: string

record results =
  verdict_heading :: string
  verdict_text :: string
  verdict_confidence :: float64
  eval_df :: ParamEval
  metrics :: "metric list"

definition render_results :: "WaterSample \<Rightarrow> int \<Rightarrow> float64 \<Rightarrow> results" where
  "render_results s prediction confidence =
    \<lparr>verdict_heading =
       (if prediction \<noteq> 0 then check_mark @ '' Safe for Consumption''
        else cross_mark @ '' Not Safe for Consumption''),
     verdict_text =
       (if prediction \<noteq> 0
        then ''This water meets WHO safety standards for human consumption.''
        else ''This water does not meet WHO safety standards.''),
     verdict_confidence = confidence,
     eval_df = param_eval s,
     metrics =
       [\<lparr>label = ''pH Level'', shown = (PyFloat (ph s), ''''),
         delta = (if 6.5 \<le> ph s \<and> ph s \<le> 8.5 then ''Optimal'' else ''Caution''),
         delta_color = (if 6.5 \<le> ph s \<and> ph s \<le> 8.5 then ''normal'' else ''off'')\<rparr>,
        \<lparr>label = ''Dissolved Oxygen'', shown = (PyFloat (dissolved_oxygen s), '' mg/L''),
         delta = (if dissolved_oxygen s \<ge> 6 then ''Healthy'' else ''Low''),
         delta_color = (if dissolved_oxygen s \<ge> 6 then ''normal'' else ''off'')\<rparr>,
        \<lparr>label = ''Conductivity'',
         shown = (PyInt (conductivity s), '' '' @ micro_sign @ ''S/cm''),
         delta = (if conductivity s < 1000 then ''Normal'' else ''High''),
         delta_color = (if conductivity s < 1000 then ''normal'' else ''off'')\<rparr>]\<rparr>"


subsection \<open>Loading the pipeline and serving\<close>






subsection \<open>Samples and stub pipelines\<close>

text \<open>
  The two scenarios the specification names, and samples on the sliders' grids at which
  properties are evaluated. \<open>scenario_clear\<close> is also the sample of the sliders' initial
  values.
\<close>

definition scenario_clear :: WaterSample where
  "scenario_clear =
    \<lparr>ph = 7.0, temperature = 22.0, turbidity = 0.01, dissolved_oxygen = 8.0, conductivity = 350\<rparr>"

definition scenario_polluted :: WaterSample where
  "scenario_polluted =
    \<lparr>ph = 9.0, temperature = 35.0, turbidity = 10.0, dissolved_oxygen = 2.0, conductivity = 1600\<rparr>"

definition sample_strongly_alkaline :: WaterSample where
  "sample_strongly_alkaline = scenario_clear\<lparr>ph := 10.0\<rparr>"

definition sample_top_of_scale :: WaterSample where
  "sample_top_of_scale = scenario_clear\<lparr>ph := 14.0\<rparr>"

definition sample_acidic :: WaterSample where
  "sample_acidic = scenario_clear\<lparr>ph := 5.0\<rparr>"

definition sample_sliders_at_max :: WaterSample where
  "sample_sliders_at_max =
    scenario_clear\<lparr>dissolved_oxygen := max_value dissolved_oxygen_slider,
                    conductivity := max_value conductivity_slider\<rparr>"

text \<open>A pipeline that answers every row with class 1 and the probabilities 0.25 and 0.75.\<close>

definition stub_pipeline :: pipeline where
  "stub_pipeline = \<lparr>predict = (\<lambda>row. 1), predict_proba = (\<lambda>row. [0.25, 0.75])\<rparr>"

text \<open>A pipeline whose probabilities are the float64 numbers nearest to 0.42 and 0.58,
  and one whose row of probabilities is empty.\<close>

definition rounding_pipeline :: pipeline where
  "rounding_pipeline =
    \<lparr>predict = (\<lambda>row. 1),
     predict_proba =
       (\<lambda>row. [7566047373982433 / 18014398509481984, 5224175567749775 / 9007199254740992])\<rparr>"



section \<open>Properties\<close>

subsection \<open>Tiers of the status strings\<close>

lemma tier_check_mark: "status_tier (check_mark @ rest) = Some Optimal"
  by (simp add: status_tier_def)

lemma tier_warning_sign: "status_tier (warning_sign @ rest) = Some Caution"
  by (simp add: status_tier_def check_mark_def warning_sign_def)

lemma tier_cross_mark: "status_tier (cross_mark @ rest) = Some Dangerous"
  by (simp add: status_tier_def check_mark_def warning_sign_def cross_mark_def)

subsection \<open>Rounding to float64\<close>

text \<open>
  The rounded integer is within one half of the number and between its floor and its
  ceiling; \<open>floor_log2\<close> is the floor of the binary logarithm; a number between 0 and 100
  rounds to a float between 0 and 100 that is within \<open>1 / 2 ^ 47\<close> of it.
\<close>

lemma round_half_even_near: "\<bar>of_int (round_half_even y) - y\<bar> \<le> 1/2"
  unfolding round_half_even_def Let_def by (auto simp: abs_if) linarith+

lemma round_half_even_ge: "\<lfloor>y\<rfloor> \<le> round_half_even y"
  unfolding round_half_even_def Let_def by auto

lemma round_half_even_le: "round_half_even y \<le> \<lceil>y\<rceil>"
  unfolding round_half_even_def Let_def by (auto simp: ceiling_def) linarith+

lemma round_half_even_of_int [simp]: "round_half_even (of_int k) = k"
  unfolding round_half_even_def Let_def by simp

lemma floor_log2_bounds:
  assumes "0 < x"
  shows "2 powi (floor_log2 x) \<le> x \<and> x < 2 powi (floor_log2 x + 1)"
proof (cases "1 \<le> x")
  case True
  define n where "n = \<lfloor>x\<rfloor>"
  have n: "0 < n" "of_int n \<le> x" "x < of_int n + 1"
    using True by (simp_all add: n_def)
  from bitlen_bounds [OF n(1)] have b: "2 ^ nat (bitlen n - 1) \<le> n" "n < 2 ^ nat (bitlen n)"
    by simp_all
  have pos: "1 \<le> bitlen n"
    using n(1) bitlen_eq_zero_iff [of n] bitlen_nonneg [of n] by linarith
  have p1: "(2::real) powi (bitlen n - 1) = 2 ^ nat (bitlen n - 1)"
    using pos by (simp add: power_int_def)
  have p2: "(2::real) powi (bitlen n - 1 + 1) = 2 ^ nat (bitlen n)"
    using pos by (simp add: power_int_def)
  have q1: "(2::real) ^ nat (bitlen n - 1) \<le> of_int n"
    using b(1) by (metis of_int_le_iff of_int_numeral of_int_power)
  have q2: "of_int n + 1 \<le> (2::real) ^ nat (bitlen n)"
  proof -
    from b(2) have "n + 1 \<le> 2 ^ nat (bitlen n)" by simp
    then have "of_int (n + 1) \<le> (of_int (2 ^ nat (bitlen n)) :: real)"
      by (simp only: of_int_le_iff)
    then show ?thesis by simp
  qed
  have fl: "floor_log2 x = bitlen n - 1"
    using True by (simp add: floor_log2_def n_def)
  have "2 ^ nat (bitlen n - 1) \<le> x"
    using q1 n(2) by linarith
  moreover have "x < 2 ^ nat (bitlen n)"
    using q2 n(3) by linarith
  ultimately show ?thesis
    by (simp only: fl p1 p2 simp_thms)
next
  case False
  define n where "n = \<lceil>1 / x\<rceil> - 1"
  from False assms have y: "1 < 1 / x" by simp
  have n: "0 < n" "of_int n < 1 / x" "1 / x \<le> of_int n + 1"
    using y by (simp_all add: n_def less_ceiling_iff) linarith+
  from bitlen_bounds [OF n(1)] have b: "2 ^ nat (bitlen n - 1) \<le> n" "n < 2 ^ nat (bitlen n)"
    by simp_all
  have pos: "1 \<le> bitlen n"
    using n(1) bitlen_eq_zero_iff [of n] bitlen_nonneg [of n] by linarith
  have lo: "(2::real) powi (- bitlen n) = 1 / 2 ^ nat (bitlen n)"
    using pos by (simp add: power_int_def power_one_over inverse_eq_divide)
  have hi: "(2::real) powi (- bitlen n + 1) = 1 / 2 ^ nat (bitlen n - 1)"
    using pos by (auto simp add: power_int_def power_one_over inverse_eq_divide nat_diff_distrib)
  have le: "(2::real) ^ nat (bitlen n - 1) \<le> of_int n"
    using b(1) by (metis of_int_le_iff of_int_numeral of_int_power)
  have ge: "of_int n + 1 \<le> (2::real) ^ nat (bitlen n)"
  proof -
    from b(2) have "n + 1 \<le> 2 ^ nat (bitlen n)" by simp
    then have "of_int (n + 1) \<le> (of_int (2 ^ nat (bitlen n)) :: real)"
      by (simp only: of_int_le_iff)
    then show ?thesis by simp
  qed
  have "1 / 2 ^ nat (bitlen n) \<le> x"
  proof -
    from n(3) ge have "1 / x \<le> 2 ^ nat (bitlen n)" by linarith
    with assms show ?thesis by (simp add: field_simps)
  qed
  moreover have "x < 1 / 2 ^ nat (bitlen n - 1)"
  proof -
    from n(2) le have "2 ^ nat (bitlen n - 1) < 1 / x" by linarith
    with assms show ?thesis by (simp add: field_simps)
  qed
  moreover have "floor_log2 x = - bitlen n"
    using False by (simp add: floor_log2_def n_def)
  ultimately show ?thesis
    using lo hi by simp
qed

lemma floor_log2_log:
  assumes "0 < x"
  shows "floor_log2 x = \<lfloor>log 2 x\<rfloor>"
proof -
  have powr: "2 powr real_of_int k = 2 powi k" for k
    by (simp add: powr_real_of_int')
  from floor_log2_bounds [OF assms]
  have "2 powr real_of_int (floor_log2 x) \<le> x" and "x < 2 powr real_of_int (floor_log2 x + 1)"
    by (simp_all only: powr)
  then show ?thesis
    using floor_log_eq_powr_iff [of x 2 "floor_log2 x"] assms by simp
qed

lemma floor_log2_percent:
  assumes "0 < x" and "x \<le> 100"
  shows "floor_log2 x \<le> 6"
proof (cases "1 \<le> x")
  case True
  have "\<lfloor>x\<rfloor> < 2 ^ nat 7"
    using assms(2) by (simp add: floor_less_iff)
  then have "bitlen \<lfloor>x\<rfloor> \<le> 7"
    by (simp only: bitlen_le_iff_power) simp
  with True show ?thesis by (simp add: floor_log2_def)
next
  case False
  then show ?thesis
    using bitlen_nonneg [of "\<lceil>1 / x\<rceil> - 1"] by (simp add: floor_log2_def)
qed

lemma round64_percent:
  assumes "0 \<le> x" and "x \<le> 100"
  shows "\<exists>r. round64 x = Finite r \<and> 0 \<le> r \<and> r \<le> 100 \<and> \<bar>r - x\<bar> \<le> 1 / 2 ^ 47"
proof (cases "x = 0")
  case True
  then show ?thesis by (simp add: round64_def)
next
  case False
  with assms have pos: "0 < x" by simp
  define e where "e = max (- 1022) (floor_log2 x)"
  define n where "n = nat (52 - e)"
  define k where "k = round_half_even (x * 2 ^ n)"
  have e: "- 1022 \<le> e" "e \<le> 6"
    using floor_log2_percent [OF pos assms(2)] pos by (simp_all add: e_def)
  then have n: "46 \<le> n" by (simp add: n_def)
  have u: "(2::real) powi (e - 52) = 1 / 2 ^ n"
    using e by (simp add: power_int_def n_def power_one_over inverse_eq_divide)
  have k_lo: "0 \<le> k"
  proof -
    have "0 \<le> \<lfloor>x * 2 ^ n\<rfloor>" using pos by simp
    with round_half_even_ge [of "x * 2 ^ n"] show ?thesis unfolding k_def by linarith
  qed
  have k_hi: "k \<le> 100 * 2 ^ n"
  proof -
    have "x * 2 ^ n \<le> of_int (100 * 2 ^ n)" using assms(2) by simp
    then have "\<lceil>x * 2 ^ n\<rceil> \<le> 100 * 2 ^ n" by (simp only: ceiling_le_iff)
    with round_half_even_le [of "x * 2 ^ n"] show ?thesis unfolding k_def by linarith
  qed
  define r where "r = of_int k / (2::real) ^ n"
  have r_lo: "0 \<le> r" using k_lo by (simp add: r_def)
  have r_hi: "r \<le> 100"
  proof -
    from k_hi have "of_int k \<le> (of_int (100 * 2 ^ n) :: real)" by (simp only: of_int_le_iff)
    then show ?thesis by (simp add: r_def field_simps)
  qed
  have near: "\<bar>r - x\<bar> \<le> 1 / 2 ^ 47"
  proof -
    have "\<bar>r - x\<bar> = \<bar>of_int k - x * 2 ^ n\<bar> / 2 ^ n"
      by (simp add: r_def field_simps abs_divide)
    also have "\<dots> \<le> (1/2) / 2 ^ n"
      unfolding k_def by (rule divide_right_mono [OF round_half_even_near]) simp
    also have "\<dots> \<le> (1/2) / 2 ^ 46"
    proof (rule divide_left_mono)
      show "(2::real) ^ 46 \<le> 2 ^ n"
        using n by (intro power_increasing) simp_all
    qed simp_all
    finally show ?thesis by simp
  qed
  have small: "\<not> 2 powi 1024 \<le> \<bar>r\<bar>"
    using r_lo r_hi by simp
  have rr: "of_int (round_half_even (x / 2 powi (max (- 1022) (floor_log2 x) - 52))) *
      2 powi (max (- 1022) (floor_log2 x) - 52) = r"
    using u unfolding e_def r_def k_def by simp
  have "round64 x = Finite r"
    by (simp only: round64_def Let_def abs_of_pos [OF pos] False rr small if_False)
  with r_lo r_hi near show ?thesis by blast
qed


lemma round64_75: "round64 75 = Finite 75"
proof -
  have "bitlen 75 = 7" by code_simp
  then show ?thesis
    by (simp add: round64_def floor_log2_def round_half_even_def Let_def)
qed

lemma round64_58:
  "round64 (5224175567749775 / 9007199254740992 * 100) = Finite (8162774324609023 / 140737488355328)"
proof -
  have "bitlen 57 = 6" by code_simp
  then show ?thesis
    by (simp add: round64_def floor_log2_def round_half_even_def Let_def)
qed

subsection \<open>The confidence\<close>

lemma max_loop_fold: "max_loop m xs = fold max xs m"
  by (induction xs arbitrary: m) (simp_all add: max_def)

lemma py_max_Max: "xs \<noteq> [] \<Longrightarrow> py_max xs = Inr (Max (set xs))"
proof (cases xs)
  case Nil
  assume "xs \<noteq> []"
  with Nil show ?thesis by simp
next
  case (Cons x rest)
  have "fold max rest x = Max (set (x # rest))"
    by (rule Max.set_eq_fold [symmetric])
  with Cons show ?thesis
    by (simp add: py_max_def max_loop_fold)
qed

lemma Max_unit_interval:
  assumes "xs \<noteq> []" and "\<forall>q\<in>set xs. (0::real) \<le> q \<and> q \<le> 1"
  shows "0 \<le> Max (set xs) \<and> Max (set xs) \<le> 1"
proof -
  have "Max (set xs) \<in> set xs"
    using assms(1) by (intro Max_in) simp_all
  with assms(2) show ?thesis by blast
qed

lemma classify_run:
  "classify p s =
    (if predict_proba p (input_data s) = [] then Inl ValueError
     else Inr (predict p (input_data s),
               float_mul (Max (set (predict_proba p (input_data s)))) 100))"
  by (simp add: classify_def Let_def py_max_Max) (simp add: py_max_def)

text \<open>
  C6. The claim reads: the confidence equals the greatest class probability multiplied by
  100, and lies in [0, 100] when the probabilities lie in [0, 1]. The product of line 105
  is a float64 product, so the confidence is the exact product rounded to the nearest
  float64 and need not equal it: for the floats nearest to 0.42 and 0.58 the script
  computes 57.99999999999999 (8162774324609023 / 2 ^ 47), which is not the exact product.
\<close>

theorem confidence_is_rounded_product:
  "classify rounding_pipeline scenario_clear =
     Inr (1, Finite (8162774324609023 / 140737488355328)) \<and>
   Max (set (predict_proba rounding_pipeline (input_data scenario_clear))) =
     5224175567749775 / 9007199254740992 \<and>
   classify rounding_pipeline scenario_clear \<noteq>
     Inr (1, Finite (Max (set (predict_proba rounding_pipeline (input_data scenario_clear))) * 100))"
proof -
  have top: "Max (set (predict_proba rounding_pipeline (input_data scenario_clear))) =
      5224175567749775 / 9007199254740992"
    by (simp add: rounding_pipeline_def)
  have run: "classify rounding_pipeline scenario_clear =
      Inr (1, Finite (8162774324609023 / 140737488355328))"
    unfolding classify_run top float_mul_def round64_58
    by (simp add: rounding_pipeline_def)
  show ?thesis
    unfolding run top by simp
qed

text \<open>
  C6, as the script has it. Whenever the pipeline's row of probabilities is not empty,
  \<open>classify\<close> returns the pipeline's label and, as the confidence, the float64 product of
  the greatest probability and 100; on an empty row Python's \<^verbatim>\<open>max\<close> raises. When
  moreover every probability lies between 0 and 1, the confidence is a finite float
  between 0 and 100, within \<open>1 / 2 ^ 47\<close> of the exact product.
\<close>

theorem classify_confidence:
  "classify p s =
     (if predict_proba p (input_data s) = [] then Inl ValueError
      else Inr (predict p (input_data s),
                float_mul (Max (set (predict_proba p (input_data s)))) 100)) \<and>
   (predict_proba p (input_data s) \<noteq> [] \<and>
    (\<forall>q\<in>set (predict_proba p (input_data s)). 0 \<le> q \<and> q \<le> 1) \<longrightarrow>
      (\<exists>c. float_mul (Max (set (predict_proba p (input_data s)))) 100 = Finite c \<and>
           0 \<le> c \<and> c \<le> 100 \<and>
           \<bar>c - Max (set (predict_proba p (input_data s))) * 100\<bar> \<le> 1 / 2 ^ 47))"
proof -
  let ?ps = "predict_proba p (input_data s)"
  have "\<exists>c. float_mul (Max (set ?ps)) 100 = Finite c \<and> 0 \<le> c \<and> c \<le> 100 \<and>
          \<bar>c - Max (set ?ps) * 100\<bar> \<le> 1 / 2 ^ 47"
    if "?ps \<noteq> []" and "\<forall>q\<in>set ?ps. 0 \<le> q \<and> q \<le> 1"
  proof -
    from Max_unit_interval [OF that]
    have "0 \<le> Max (set ?ps) * 100" and "Max (set ?ps) * 100 \<le> 100"
      by simp_all
    then show ?thesis
      unfolding float_mul_def by (rule round64_percent)
  qed
  with classify_run [of p s] show ?thesis by blast
qed

theorem classify_confidence_witness:
  "\<exists>c. classify stub_pipeline scenario_clear = Inr (1, Finite c) \<and>
       0 \<le> c \<and> c \<le> 100 \<and> \<bar>c - 75\<bar> \<le> 1 / 2 ^ 47"
proof -
  have ne: "predict_proba stub_pipeline (input_data scenario_clear) \<noteq> []"
    by (simp add: stub_pipeline_def)
  have unit: "\<forall>q\<in>set (predict_proba stub_pipeline (input_data scenario_clear)). 0 \<le> q \<and> q \<le> 1"
    by (simp add: stub_pipeline_def)
  have top: "Max (set (predict_proba stub_pipeline (input_data scenario_clear))) * 100 = 75"
    by (simp add: stub_pipeline_def)
  have lbl: "predict stub_pipeline (input_data scenario_clear) = 1"
    by (simp add: stub_pipeline_def)
  from classify_confidence [of stub_pipeline scenario_clear] ne unit
  obtain c where
    "classify stub_pipeline scenario_clear =
       Inr (predict stub_pipeline (input_data scenario_clear), Finite c)"
    and "0 \<le> c" and "c \<le> 100"
    and "\<bar>c - Max (set (predict_proba stub_pipeline (input_data scenario_clear))) * 100\<bar>
          \<le> 1 / 2 ^ 47"
    by auto
  then show ?thesis
    unfolding top lbl by blast
qed

subsection \<open>Failures\<close>









subsection \<open>The status column, row by row\<close>

text \<open>
  The tier of each of the five statuses, as the chains of lines 140-159 decide it. The pH
  chain tests the optimal band first, then \<^verbatim>\<open>ph > 8.5\<close> with no upper bound, then
  \<^verbatim>\<open>ph >= 4.5\<close>.
\<close>

lemmas tier_of_mark = tier_check_mark tier_warning_sign tier_cross_mark

lemma ph_status_tier:
  "status_tier (Status (param_eval s) ! 0) =
     Some (if 6.5 \<le> ph s \<and> ph s \<le> 8.5 then Optimal
           else if 4.5 \<le> ph s then Caution else Dangerous)"
  by (simp add: param_eval_def tier_of_mark)

lemma temperature_status_tier:
  "status_tier (Status (param_eval s) ! 1) =
     Some (if temperature s < 30 then Optimal
           else if temperature s < 40 then Caution else Dangerous)"
  by (simp add: param_eval_def tier_of_mark)

lemma turbidity_status_tier:
  "status_tier (Status (param_eval s) ! 2) =
     Some (if turbidity s < 5 then Optimal
           else if turbidity s < 20 then Caution else Dangerous)"
  by (simp add: param_eval_def tier_of_mark)

lemma dissolved_oxygen_status_tier:
  "status_tier (Status (param_eval s) ! 3) =
     Some (if 6 \<le> dissolved_oxygen s then Optimal
           else if 3 \<le> dissolved_oxygen s then Caution else Dangerous)"
  by (simp add: param_eval_def tier_of_mark)

lemma conductivity_status_tier:
  "status_tier (Status (param_eval s) ! 4) =
     Some (if conductivity s < 1000 then Optimal
           else if conductivity s < 1500 then Caution else Dangerous)"
  by (simp add: param_eval_def tier_of_mark)

lemma status_tiers:
  "map status_tier (Status (param_eval s)) =
     [status_tier (Status (param_eval s) ! 0), status_tier (Status (param_eval s) ! 1),
      status_tier (Status (param_eval s) ! 2), status_tier (Status (param_eval s) ! 3),
      status_tier (Status (param_eval s) ! 4)]"
  by (simp add: param_eval_def)

lemma sample_on_the_sliders:
  "water_quality_form (scenario_clear\<lparr>ph := 10.0\<rparr>)"
  "water_quality_form (scenario_clear\<lparr>ph := 14.0\<rparr>)"
  "water_quality_form (scenario_clear\<lparr>ph := 5.0\<rparr>)"
  by (simp_all add: water_quality_form_def float_slider_admits_def int_slider_admits_def
      ph_slider_def temperature_slider_def turbidity_slider_def dissolved_oxygen_slider_def
      conductivity_slider_def scenario_clear_def)

subsection \<open>The pH row\<close>

text \<open>
  C1. The claim reads: the pH status is of the optimal tier for pH in [6.5, 8.5], of a
  caution tier for pH in [4.5, 6.5) or (8.5, 9.5], and of the dangerous tier otherwise.
  The script departs from it above 9.5. At pH 10.0, a value the pH slider offers, the
  status is the warning sign with "Alkaline", a caution tier, where the claim has the
  dangerous tier; in the same row the health impact, whose chain does test
  \<^verbatim>\<open>ph <= 9.5\<close>, is "Harmful to health".
\<close>

theorem ph_status_at_ten:
  "water_quality_form sample_strongly_alkaline \<and>
   ph sample_strongly_alkaline = 10 \<and>
   Status (param_eval sample_strongly_alkaline) ! 0 = warning_sign @ '' Alkaline'' \<and>
   status_tier (Status (param_eval sample_strongly_alkaline) ! 0) = Some Caution \<and>
   Health_Impact (param_eval sample_strongly_alkaline) ! 0 = ''Harmful to health''"
proof -
  have "water_quality_form sample_strongly_alkaline"
    unfolding sample_strongly_alkaline_def by (rule sample_on_the_sliders)
  moreover have "ph sample_strongly_alkaline = 10"
    by (simp add: sample_strongly_alkaline_def)
  moreover from this
  have "Status (param_eval sample_strongly_alkaline) ! 0 = warning_sign @ '' Alkaline''"
    and "Health_Impact (param_eval sample_strongly_alkaline) ! 0 = ''Harmful to health''"
    by (simp_all add: param_eval_def)
  ultimately show ?thesis
    by (simp add: tier_of_mark)
qed

text \<open>
  C10. For every pH above 8.5 the pH status is the warning sign with "Alkaline", a caution
  tier; the status of the cross with "Dangerous" is shown exactly when the pH is below
  4.5, so no alkaline value receives it.
\<close>

theorem alkaline_never_dangerous:
  "(8.5 < ph s \<longrightarrow> Status (param_eval s) ! 0 = warning_sign @ '' Alkaline'') \<and>
   (8.5 < ph s \<longrightarrow> status_tier (Status (param_eval s) ! 0) = Some Caution) \<and>
   (Status (param_eval s) ! 0 = cross_mark @ '' Dangerous'') = (ph s < 4.5) \<and>
   (status_tier (Status (param_eval s) ! 0) = Some Dangerous) = (ph s < 4.5)"
proof -
  have differ: "check_mark @ a \<noteq> cross_mark @ b" "warning_sign @ a \<noteq> cross_mark @ b" for a b
    by (simp_all add: check_mark_def warning_sign_def cross_mark_def)
  have "Status (param_eval s) ! 0 = warning_sign @ '' Alkaline''" if "8.5 < ph s"
    using that by (simp add: param_eval_def)
  moreover have "(Status (param_eval s) ! 0 = cross_mark @ '' Dangerous'') = (ph s < 4.5)"
    by (simp add: param_eval_def differ)
  moreover have "(status_tier (Status (param_eval s) ! 0) = Some Dangerous) = (ph s < 4.5)"
    unfolding ph_status_tier by auto
  moreover have "status_tier (Status (param_eval s) ! 0) = Some Caution" if "8.5 < ph s"
    unfolding ph_status_tier using that by auto
  ultimately show ?thesis by blast
qed

theorem alkaline_never_dangerous_witness:
  "water_quality_form sample_top_of_scale \<and> ph sample_top_of_scale = 14 \<and>
   Status (param_eval sample_top_of_scale) ! 0 = warning_sign @ '' Alkaline'' \<and>
   status_tier (Status (param_eval sample_top_of_scale) ! 0) = Some Caution \<and>
   Status (param_eval sample_top_of_scale) ! 0 \<noteq> cross_mark @ '' Dangerous''"
proof -
  have form: "water_quality_form sample_top_of_scale"
    unfolding sample_top_of_scale_def by (rule sample_on_the_sliders)
  have top: "ph sample_top_of_scale = 14"
    by (simp add: sample_top_of_scale_def)
  then have above: "8.5 < ph sample_top_of_scale" "\<not> ph sample_top_of_scale < 4.5"
    by simp_all
  from alkaline_never_dangerous [of sample_top_of_scale] form top above show ?thesis
    by blast
qed

text \<open>
  C9. For every pH in [4.5, 5.5) the pH row shows the caution status, the warning sign
  with "Acidic", next to the health impact "Harmful to health", the last string of the
  impact chain. Below 6.5 the impact "May cause irritation" starts at 5.5, not at 4.5
  where the caution status starts.
\<close>

theorem acidic_status_with_harmful_impact:
  "(4.5 \<le> ph s \<and> ph s < 5.5 \<longrightarrow>
      Status (param_eval s) ! 0 = warning_sign @ '' Acidic'' \<and>
      status_tier (Status (param_eval s) ! 0) = Some Caution \<and>
      Health_Impact (param_eval s) ! 0 = ''Harmful to health'') \<and>
   (ph s < 6.5 \<longrightarrow>
      (Health_Impact (param_eval s) ! 0 = ''May cause irritation'') = (5.5 \<le> ph s))"
  by (simp add: param_eval_def tier_of_mark)

theorem acidic_status_with_harmful_impact_witness:
  "water_quality_form sample_acidic \<and> ph sample_acidic = 5 \<and>
   Status (param_eval sample_acidic) ! 0 = warning_sign @ '' Acidic'' \<and>
   status_tier (Status (param_eval sample_acidic) ! 0) = Some Caution \<and>
   Health_Impact (param_eval sample_acidic) ! 0 = ''Harmful to health'' \<and>
   Health_Impact (param_eval sample_acidic) ! 0 \<noteq> ''May cause irritation''"
proof -
  have form: "water_quality_form sample_acidic"
    unfolding sample_acidic_def by (rule sample_on_the_sliders)
  have five: "ph sample_acidic = 5"
    by (simp add: sample_acidic_def)
  then have band: "4.5 \<le> ph sample_acidic \<and> ph sample_acidic < 5.5"
    and low: "ph sample_acidic < 6.5" "\<not> 5.5 \<le> ph sample_acidic"
    by simp_all
  from acidic_status_with_harmful_impact [of sample_acidic] form five band low show ?thesis
    by blast
qed

subsection \<open>The other four rows\<close>

text \<open>
  C4. For every sample the statuses of temperature, turbidity, dissolved oxygen and
  conductivity follow the threshold table: temperature is optimal below 30, caution in
  [30, 40), dangerous from 40; turbidity is optimal below 5, caution in [5, 20), dangerous
  from 20; dissolved oxygen is optimal from 6, caution in [3, 6), dangerous below 3;
  conductivity is optimal below 1000, caution in [1000, 1500), dangerous from 1500.
\<close>

theorem threshold_table_other_parameters:
  "(status_tier (Status (param_eval s) ! 1) = Some Optimal) = (temperature s < 30) \<and>
   (status_tier (Status (param_eval s) ! 1) = Some Caution) = (30 \<le> temperature s \<and> temperature s < 40) \<and>
   (status_tier (Status (param_eval s) ! 1) = Some Dangerous) = (40 \<le> temperature s) \<and>
   (status_tier (Status (param_eval s) ! 2) = Some Optimal) = (turbidity s < 5) \<and>
   (status_tier (Status (param_eval s) ! 2) = Some Caution) = (5 \<le> turbidity s \<and> turbidity s < 20) \<and>
   (status_tier (Status (param_eval s) ! 2) = Some Dangerous) = (20 \<le> turbidity s) \<and>
   (status_tier (Status (param_eval s) ! 3) = Some Optimal) = (6 \<le> dissolved_oxygen s) \<and>
   (status_tier (Status (param_eval s) ! 3) = Some Caution) = (3 \<le> dissolved_oxygen s \<and> dissolved_oxygen s < 6) \<and>
   (status_tier (Status (param_eval s) ! 3) = Some Dangerous) = (dissolved_oxygen s < 3) \<and>
   (status_tier (Status (param_eval s) ! 4) = Some Optimal) = (conductivity s < 1000) \<and>
   (status_tier (Status (param_eval s) ! 4) = Some Caution) = (1000 \<le> conductivity s \<and> conductivity s < 1500) \<and>
   (status_tier (Status (param_eval s) ! 4) = Some Dangerous) = (1500 \<le> conductivity s)"
proof -
  have temp: "(status_tier (Status (param_eval s) ! 1) = Some Optimal) = (temperature s < 30)"
    "(status_tier (Status (param_eval s) ! 1) = Some Caution) = (30 \<le> temperature s \<and> temperature s < 40)"
    "(status_tier (Status (param_eval s) ! 1) = Some Dangerous) = (40 \<le> temperature s)"
    unfolding temperature_status_tier by auto
  have turb: "(status_tier (Status (param_eval s) ! 2) = Some Optimal) = (turbidity s < 5)"
    "(status_tier (Status (param_eval s) ! 2) = Some Caution) = (5 \<le> turbidity s \<and> turbidity s < 20)"
    "(status_tier (Status (param_eval s) ! 2) = Some Dangerous) = (20 \<le> turbidity s)"
    unfolding turbidity_status_tier by auto
  have oxy: "(status_tier (Status (param_eval s) ! 3) = Some Optimal) = (6 \<le> dissolved_oxygen s)"
    "(status_tier (Status (param_eval s) ! 3) = Some Caution) = (3 \<le> dissolved_oxygen s \<and> dissolved_oxygen s < 6)"
    "(status_tier (Status (param_eval s) ! 3) = Some Dangerous) = (dissolved_oxygen s < 3)"
    unfolding dissolved_oxygen_status_tier by auto
  have cond: "(status_tier (Status (param_eval s) ! 4) = Some Optimal) = (conductivity s < 1000)"
    "(status_tier (Status (param_eval s) ! 4) = Some Caution) = (1000 \<le> conductivity s \<and> conductivity s < 1500)"
    "(status_tier (Status (param_eval s) ! 4) = Some Dangerous) = (1500 \<le> conductivity s)"
    unfolding conductivity_status_tier by auto
  from temp turb oxy cond show ?thesis by blast
qed

subsection \<open>The two scenarios\<close>

text \<open>
  C3. For the sample pH 9.0, temperature 35.0, turbidity 10.0, dissolved oxygen 2.0,
  conductivity 1600 the statuses of pH, temperature and turbidity are of a caution tier
  and those of dissolved oxygen and conductivity of the dangerous tier.
\<close>

theorem scenario_polluted_tiers:
  "Parameter (param_eval scenario_polluted) =
     [''pH'', ''Temperature'', ''Turbidity'', ''Dissolved Oxygen'', ''Conductivity''] \<and>
   map status_tier (Status (param_eval scenario_polluted)) =
     [Some Caution, Some Caution, Some Caution, Some Dangerous, Some Dangerous]"
  unfolding status_tiers ph_status_tier temperature_status_tier turbidity_status_tier
    dissolved_oxygen_status_tier conductivity_status_tier
  by (simp add: scenario_polluted_def param_eval_def)

text \<open>
  C5. For the sample pH 7.0, temperature 22.0, turbidity 0.01, dissolved oxygen 8.0,
  conductivity 350 all five statuses are of the optimal tier.
\<close>

theorem scenario_clear_all_optimal:
  "Parameter (param_eval scenario_clear) =
     [''pH'', ''Temperature'', ''Turbidity'', ''Dissolved Oxygen'', ''Conductivity''] \<and>
   map status_tier (Status (param_eval scenario_clear)) =
     [Some Optimal, Some Optimal, Some Optimal, Some Optimal, Some Optimal]"
  unfolding status_tiers ph_status_tier temperature_status_tier turbidity_status_tier
    dissolved_oxygen_status_tier conductivity_status_tier
  by (simp add: scenario_clear_def param_eval_def)

subsection \<open>The annotations and the verdict\<close>

text \<open>
  C7. The status column and the health impact column of the results are those of
  \<open>param_eval\<close> on the sample alone: two renderings of one sample with different
  predictions and confidences have the same two columns.
\<close>

theorem annotations_independent_of_verdict:
  "Status (eval_df (render_results s prediction confidence)) = Status (param_eval s) \<and>
   Health_Impact (eval_df (render_results s prediction confidence)) = Health_Impact (param_eval s) \<and>
   Status (eval_df (render_results s prediction confidence)) =
     Status (eval_df (render_results s prediction' confidence')) \<and>
   Health_Impact (eval_df (render_results s prediction confidence)) =
     Health_Impact (eval_df (render_results s prediction' confidence'))"
  by (simp add: render_results_def)

subsection \<open>What the form can submit\<close>

text \<open>The bounds the five sliders do enforce.\<close>

lemma water_quality_form_bounds:
  assumes "water_quality_form s"
  shows "0 \<le> ph s \<and> ph s \<le> 14"
    and "0 \<le> temperature s \<and> temperature s \<le> 50"
    and "0 \<le> turbidity s \<and> turbidity s \<le> 3"
    and "0 \<le> dissolved_oxygen s \<and> dissolved_oxygen s \<le> 200"
    and "0 \<le> conductivity s \<and> conductivity s \<le> 20000"
  using assms
  by (simp_all add: water_quality_form_def float_slider_admits_def int_slider_admits_def
      ph_slider_def temperature_slider_def turbidity_slider_def dissolved_oxygen_slider_def
      conductivity_slider_def)

text \<open>
  C2. The claim reads: every sample assembled from the controls has pH in [0, 14],
  temperature in [0, 50], turbidity in [0, 100], dissolved oxygen in [0, 20] and
  conductivity in [0, 2000], and no value outside these intervals can be submitted. These
  are the ranges of the script's own table \<open>ranges\<close> and of the sliders' help texts, but
  the dissolved oxygen slider ends at 200.0 and the conductivity slider at 20000: with
  both sliders at their upper end the form submits a sample that is outside the ranges.
\<close>

theorem sliders_exceed_documented_ranges:
  "water_quality_form sample_sliders_at_max \<and>
   dissolved_oxygen sample_sliders_at_max = 200 \<and>
   conductivity sample_sliders_at_max = 20000 \<and>
   \<not> dissolved_oxygen sample_sliders_at_max \<le> ranges_Max ! 3 \<and>
   \<not> real_of_int (conductivity sample_sliders_at_max) \<le> ranges_Max ! 4 \<and>
   \<not> in_ranges sample_sliders_at_max"
proof -
  have at_max: "dissolved_oxygen sample_sliders_at_max = 200"
    "conductivity sample_sliders_at_max = 20000"
    by (simp_all add: sample_sliders_at_max_def dissolved_oxygen_slider_def
        conductivity_slider_def)
  have "water_quality_form sample_sliders_at_max"
    by (simp add: water_quality_form_def float_slider_admits_def int_slider_admits_def
        ph_slider_def temperature_slider_def turbidity_slider_def dissolved_oxygen_slider_def
        conductivity_slider_def sample_sliders_at_max_def scenario_clear_def)
  moreover have "\<not> in_ranges sample_sliders_at_max"
    by (simp add: in_ranges_def input_data_def ranges_Min_def ranges_Max_def at_max)
  ultimately show ?thesis
    using at_max by (simp add: ranges_Max_def)
qed

end
